theory Spec2Isabelle
  imports Complex_Main "HOL-Library.AList"
begin

section \<open>SharpKnight parameter tuning: a model of \<^verbatim>\<open>Meta/engine_parameter_tuning.py\<close>\<close>

text \<open>
  The development embeds the optimizer of \<^verbatim>\<open>engine_parameter_tuning.py\<close>: the
  16-bit codec of \<^verbatim>\<open>Parameter\<close>, the probability model \<^verbatim>\<open>PBIL\<close>, the result parser
  and tournament wrapper of \<^verbatim>\<open>EngineEvaluator\<close>, and the generation loop of \<^verbatim>\<open>main\<close>.

  Conventions of the embedding:
  \<^item> Python floats are the real numbers: rounding error, overflow, infinities and NaN of
    IEEE arithmetic are outside the model. \<^verbatim>\<open>int(x)\<close> truncates towards zero and
    \<^verbatim>\<open>round(x)\<close> rounds to the nearest integer, a tie going to the even one.
  \<^item> Every exception the source can raise is a value of \<open>error\<close>; a function that can
    raise returns \<open>error + 'a\<close>.
  \<^item> The module-level random generator is an infinite sequence of future draws from
    \<open>[0, 1)\<close>; \<^verbatim>\<open>random.random()\<close> takes the next draw and \<^verbatim>\<open>random.choice([0, 1])\<close>
    takes the next draw and picks the element at index \<open>\<lfloor>2u\<rfloor>\<close>.
  \<^item> The subprocess of a tournament is represented by its outcome: the captured
    standard output, or the non-zero exit status that \<^verbatim>\<open>check=True\<close> turns into
    \<^verbatim>\<open>CalledProcessError\<close>. \<^verbatim>\<open>float(s)\<close> on the text of a score is a parameter
    \<open>pyfloat\<close> of the parser (\<open>None\<close> where Python raises \<^verbatim>\<open>ValueError\<close>).
  \<^item> A dictionary is an association list in insertion order, updated with
    \<open>AList.update\<close>; the JSON log file is the list of its records.
\<close>

subsection \<open>Parameter and its 16-bit codec\<close>

text \<open>
  The exceptions the modelled code can raise: \<^verbatim>\<open>ZeroDivisionError\<close> in \<^verbatim>\<open>encode\<close> when
  the bounds coincide, \<^verbatim>\<open>ValueError\<close> in \<^verbatim>\<open>int(binary_str, 2)\<close> on an empty string, and
  \<^verbatim>\<open>IndexError\<close> on a list or array index out of range.
\<close>

datatype error = ZeroDivisionError | ValueError | IndexError

text \<open>The dataclass \<^verbatim>\<open>Parameter\<close> (lines 12--19); it validates nothing.\<close>

record Parameter =
  name :: string
  min_value :: real
  max_value :: real
  default_value :: real
  is_integer :: bool

text \<open>
  \<^verbatim>\<open>int(x)\<close> on a float truncates towards zero; \<^verbatim>\<open>round(x)\<close> with one argument
  returns the nearest integer and, half way between two integers, the even one.
\<close>

definition py_int :: "real \<Rightarrow> int" where
  "py_int x = (if x < 0 then \<lceil>x\<rceil> else \<lfloor>x\<rfloor>)"

definition py_round :: "real \<Rightarrow> int" where
  "py_round x =
     (let f = \<lfloor>x\<rfloor>; d = x - of_int f
      in if d < 1 / 2 then f
         else if 1 / 2 < d then f + 1
         else if even f then f else f + 1)"

text \<open>
  \<^verbatim>\<open>format(n, '016b')\<close>: the binary digits of \<open>|n|\<close>, most significant first, padded
  with zeros to a width of 16 characters; for a negative number the sign takes the first
  of the 16 places and the padding follows it. A number of more than 16 digits is not
  shortened.
\<close>

fun bin_digits :: "nat \<Rightarrow> string" where
  "bin_digits n =
     (if n < 2 then [if n = 0 then CHR ''0'' else CHR ''1'']
      else bin_digits (n div 2) @ [if n mod 2 = 0 then CHR ''0'' else CHR ''1''])"

declare bin_digits.simps [simp del]

definition zfill :: "nat \<Rightarrow> string \<Rightarrow> string" where
  "zfill w s = replicate (w - length s) CHR ''0'' @ s"

definition format_016b :: "int \<Rightarrow> string" where
  "format_016b n =
     (if n < 0 then CHR ''-'' # zfill 15 (bin_digits (nat (- n)))
      else zfill 16 (bin_digits (nat n)))"

text \<open>
  \<^verbatim>\<open>Parameter.encode\<close> (lines 21--30). The value is not checked against the bounds; the
  division raises when they are equal. One boolean per character of the formatted
  string: a sign character gives \<open>False\<close>.
\<close>

definition encode :: "Parameter \<Rightarrow> real \<Rightarrow> error + bool list" where
  "encode p v =
     (if max_value p - min_value p = 0 then Inl ZeroDivisionError
      else
        let normalized = (v - min_value p) / (max_value p - min_value p);
            binary = format_016b (py_int (normalized * 65535))
        in Inr (map (\<lambda>bit. bit = CHR ''1'') binary))"

text \<open>
  \<^verbatim>\<open>Parameter.decode\<close> (lines 32--41). \<^verbatim>\<open>int(s, 2)\<close> is modelled on the strings
  \<^verbatim>\<open>decode\<close> builds, made of the characters 0 and 1: the empty string raises
  \<^verbatim>\<open>ValueError\<close>. The bit list may have any length; only the caller makes it 16.
\<close>

definition int_base2 :: "string \<Rightarrow> error + nat" where
  "int_base2 s =
     (if s = [] then Inl ValueError
      else if list_all (\<lambda>c. c = CHR ''0'' \<or> c = CHR ''1'') s
      then Inr (foldl (\<lambda>a c. 2 * a + (if c = CHR ''1'' then 1 else 0)) 0 s)
      else Inl ValueError)"

definition decode :: "Parameter \<Rightarrow> bool list \<Rightarrow> error + real" where
  "decode p bits =
     (let binary_str = map (\<lambda>bit. if bit then CHR ''1'' else CHR ''0'') bits
      in case int_base2 binary_str of
           Inl e \<Rightarrow> Inl e
         | Inr n \<Rightarrow>
             let normalized = real n / 65535;
                 v = min_value p + normalized * (max_value p - min_value p)
             in Inr (if is_integer p then of_int (py_round v) else v))"

subsection \<open>The random source\<close>

text \<open>
  The state of the generator is the sequence of its future draws; taking a draw
  returns the head and leaves the tail.
\<close>

type_synonym rng = "nat \<Rightarrow> real"

definition random :: "rng \<Rightarrow> real \<times> rng" where
  "random g = (g 0, \<lambda>n. g (Suc n))"

definition choice01 :: "rng \<Rightarrow> real \<times> rng" where
  "choice01 g = ((if g 0 < 1 / 2 then 0 else 1), \<lambda>n. g (Suc n))"

subsection \<open>PBIL\<close>

text \<open>
  The class \<^verbatim>\<open>PBIL\<close> (lines 43--89). The numpy array \<^verbatim>\<open>prob_vector\<close> is a list of
  reals; \<^verbatim>\<open>__init__\<close> (lines 46--62) fills it with \<open>0.5\<close> and checks none of its
  arguments.
\<close>

record PBIL =
  parameters :: "Parameter list"
  total_bits :: nat
  prob_vector :: "real list"
  learn_rate :: real
  neg_learn_rate :: real
  mut_prob :: real
  mut_shift :: real

definition PBIL_init :: "Parameter list \<Rightarrow> real \<Rightarrow> real \<Rightarrow> real \<Rightarrow> real \<Rightarrow> PBIL" where
  "PBIL_init ps lr nlr mp ms =
     \<lparr>parameters = ps, total_bits = length ps * 16,
      prob_vector = replicate (length ps * 16) (1 / 2),
      learn_rate = lr, neg_learn_rate = nlr, mut_prob = mp, mut_shift = ms\<rparr>"

text \<open>
  \<^verbatim>\<open>generate_population\<close> (line 66): for each of \<open>size\<close> individuals, one draw per entry
  of the probability vector, in order; the bit is \<^verbatim>\<open>random.random() < p\<close>.
\<close>

fun sample_bits :: "real list \<Rightarrow> rng \<Rightarrow> bool list \<times> rng" where
  "sample_bits [] g = ([], g)"
| "sample_bits (p # ps) g =
     (case random g of (u, g1) \<Rightarrow>
        (case sample_bits ps g1 of (bs, g2) \<Rightarrow> ((u < p) # bs, g2)))"

fun sample_population :: "real list \<Rightarrow> nat \<Rightarrow> rng \<Rightarrow> bool list list \<times> rng" where
  "sample_population pv 0 g = ([], g)"
| "sample_population pv (Suc k) g =
     (case sample_bits pv g of (ind, g1) \<Rightarrow>
        (case sample_population pv k g1 of (inds, g2) \<Rightarrow> (ind # inds, g2)))"

definition generate_population :: "PBIL \<Rightarrow> nat \<Rightarrow> rng \<Rightarrow> bool list list \<times> rng" where
  "generate_population m k g = sample_population (prob_vector m) k g"

text \<open>
  \<^verbatim>\<open>decode_individual\<close> (line 70): the dictionary comprehension over
  \<^verbatim>\<open>enumerate(self.parameters)\<close>, with the slice \<^verbatim>\<open>individual[i*16:(i+1)*16]\<close> (a slice
  never raises; it is shorter, or empty, when the individual is too short) and a later
  Parameter of the same name overwriting the earlier value.
\<close>

fun decode_blocks ::
  "Parameter list \<Rightarrow> nat \<Rightarrow> bool list \<Rightarrow> (string \<times> real) list \<Rightarrow> error + (string \<times> real) list" where
  "decode_blocks [] i individual d = Inr d"
| "decode_blocks (p # ps) i individual d =
     (case decode p (take 16 (drop (i * 16) individual)) of
        Inl e \<Rightarrow> Inl e
      | Inr v \<Rightarrow> decode_blocks ps (Suc i) individual (AList.update (name p) v d))"

definition decode_individual :: "PBIL \<Rightarrow> bool list \<Rightarrow> error + (string \<times> real) list" where
  "decode_individual m individual = decode_blocks (parameters m) 0 individual []"

text \<open>
  \<^verbatim>\<open>update_probabilities\<close> (lines 72--89): the learning loop and the mutation loop, each
  over \<^verbatim>\<open>range(self.total_bits)\<close>. A Python \<^verbatim>\<open>bool\<close> multiplied by a float counts as 0
  or 1. An index beyond \<open>best\<close>, \<open>worst\<close> or the vector raises \<^verbatim>\<open>IndexError\<close>. In the
  mutation loop a position first takes a draw for the test against \<open>mut_prob\<close> and,
  only if the test succeeds, a second one for \<^verbatim>\<open>random.choice([0, 1])\<close>.
\<close>

fun learn_steps ::
  "real \<Rightarrow> real \<Rightarrow> bool list \<Rightarrow> bool list \<Rightarrow> nat list \<Rightarrow> real list \<Rightarrow> error + real list" where
  "learn_steps lr nlr best worst [] pv = Inr pv"
| "learn_steps lr nlr best worst (i # is) pv =
     (if i < length best \<and> i < length worst \<and> i < length pv then
        (if best ! i = worst ! i then
           learn_steps lr nlr best worst is
             (pv[i := pv ! i * (1 - lr) + of_bool (best ! i) * lr])
         else
           (let learn_rate2 = lr + nlr
            in learn_steps lr nlr best worst is
                 (pv[i := pv ! i * (1 - learn_rate2) + of_bool (best ! i) * learn_rate2])))
      else Inl IndexError)"

fun mutate_steps ::
  "real \<Rightarrow> real \<Rightarrow> nat list \<Rightarrow> real list \<Rightarrow> rng \<Rightarrow> error + real list \<times> rng" where
  "mutate_steps mp ms [] pv g = Inr (pv, g)"
| "mutate_steps mp ms (i # is) pv g =
     (case random g of (u, g1) \<Rightarrow>
        if u < mp then
          (if i < length pv then
             (case choice01 g1 of (t, g2) \<Rightarrow>
                mutate_steps mp ms is (pv[i := pv ! i * (1 - ms) + t * ms]) g2)
           else Inl IndexError)
        else mutate_steps mp ms is pv g1)"

definition update_probabilities ::
  "PBIL \<Rightarrow> bool list \<Rightarrow> bool list \<Rightarrow> rng \<Rightarrow> error + PBIL \<times> rng" where
  "update_probabilities m best worst g =
     (case learn_steps (learn_rate m) (neg_learn_rate m) best worst [0..<total_bits m]
             (prob_vector m) of
        Inl e \<Rightarrow> Inl e
      | Inr pv1 \<Rightarrow>
          (case mutate_steps (mut_prob m) (mut_shift m) [0..<total_bits m] pv1 g of
             Inl e \<Rightarrow> Inl e
           | Inr (pv2, g') \<Rightarrow> Inr (m\<lparr>prob_vector := pv2\<rparr>, g')))"

subsection \<open>EngineEvaluator\<close>

text \<open>
  String operations of \<^verbatim>\<open>parse_tournament_results\<close> (lines 136--153), on ASCII text:
  \<^verbatim>\<open>strip()\<close>, \<^verbatim>\<open>rstrip('%')\<close>, \<^verbatim>\<open>split\<close> at every newline, \<^verbatim>\<open>split()\<close> on runs of white space
  (\<open>split_ws\<close>, with the word being read as its first argument), and \<^verbatim>\<open>startswith\<close>.
\<close>

definition is_space :: "char \<Rightarrow> bool" where
  "is_space c \<longleftrightarrow>
     c \<in> {CHR 0x09, CHR 0x0A, CHR 0x0B, CHR 0x0C, CHR 0x0D,
          CHR 0x1C, CHR 0x1D, CHR 0x1E, CHR 0x1F, CHR 0x20}"

definition strip :: "string \<Rightarrow> string" where
  "strip s = rev (dropWhile is_space (rev (dropWhile is_space s)))"

definition rstrip_chars :: "char \<Rightarrow> string \<Rightarrow> string" where
  "rstrip_chars c s = rev (dropWhile (\<lambda>x. x = c) (rev s))"

fun split_on :: "char \<Rightarrow> string \<Rightarrow> string list" where
  "split_on c [] = [[]]"
| "split_on c (x # xs) =
     (if x = c then [] # split_on c xs
      else (case split_on c xs of
              [] \<Rightarrow> [[x]]
            | w # ws \<Rightarrow> (x # w) # ws))"

fun split_ws :: "string \<Rightarrow> string \<Rightarrow> string list" where
  "split_ws cur [] = (if cur = [] then [] else [cur])"
| "split_ws cur (c # cs) =
     (if is_space c then (if cur = [] then split_ws [] cs else cur # split_ws [] cs)
      else split_ws (cur @ [c]) cs)"

definition startswith :: "string \<Rightarrow> string \<Rightarrow> bool" where
  "startswith s p \<longleftrightarrow> take (length p) s = p"

text \<open>
  The index of the first line that starts with \<^verbatim>\<open>Rank Name\<close>, or \<open>-1\<close>; then the rows
  after it up to the first blank line. A row with fewer than two fields
  (\<^verbatim>\<open>IndexError\<close> on \<^verbatim>\<open>parts[-2]\<close>) or whose score is not a number (\<^verbatim>\<open>ValueError\<close>) is
  skipped, as the \<^verbatim>\<open>except\<close> clause does.
\<close>

fun rankings_start_from :: "string list \<Rightarrow> int \<Rightarrow> int" where
  "rankings_start_from [] i = - 1"
| "rankings_start_from (line # lines) i =
     (if startswith line ''Rank Name'' then i else rankings_start_from lines (i + 1))"

fun parse_rows :: "(string \<Rightarrow> real option) \<Rightarrow> string list \<Rightarrow> real list" where
  "parse_rows pyfloat [] = []"
| "parse_rows pyfloat (line # lines) =
     (if strip line = [] then []
      else
        (let parts = split_ws [] line
         in if length parts < 2 then parse_rows pyfloat lines
            else (case pyfloat (rstrip_chars CHR ''%'' (parts ! (length parts - 2))) of
                    None \<Rightarrow> parse_rows pyfloat lines
                  | Some score \<Rightarrow> (score / 100) # parse_rows pyfloat lines)))"

definition parse_tournament_results :: "(string \<Rightarrow> real option) \<Rightarrow> string \<Rightarrow> real list" where
  "parse_tournament_results pyfloat output =
     (let lines = split_on (CHR 0x0A) (strip output);
          rankings_start = rankings_start_from lines 0
      in if rankings_start = - 1 then []
         else parse_rows pyfloat (drop (nat (rankings_start + 1)) lines))"

text \<open>
  \<^verbatim>\<open>run_tournament\<close> (lines 155--175): the scores parsed from the output of a completed
  process, or one \<open>0.0\<close> per configuration when the process exits with a non-zero
  status. The command line has no part in the result.
\<close>

datatype process_result = Completed string | CalledProcessError

definition run_tournament ::
  "(string \<Rightarrow> real option) \<Rightarrow> (string \<times> real) list list \<Rightarrow> process_result \<Rightarrow> real list" where
  "run_tournament pyfloat configs res =
     (case res of
        Completed out \<Rightarrow> parse_tournament_results pyfloat out
      | CalledProcessError \<Rightarrow> replicate (length configs) 0)"

text \<open>
  Of \<^verbatim>\<open>EngineEvaluator\<close> the driver uses the Parameters extracted from the engine, here
  given to the constructor, and the dictionary of their default values.
\<close>

record EngineEvaluator =
  ev_parameters :: "Parameter list"
  default_params :: "(string \<times> real) list"

definition EngineEvaluator_init :: "Parameter list \<Rightarrow> EngineEvaluator" where
  "EngineEvaluator_init ps =
     \<lparr>ev_parameters = ps,
      default_params = foldl (\<lambda>d p. AList.update (name p) (default_value p) d) [] ps\<rparr>"

subsection \<open>The driver\<close>

text \<open>
  \<^verbatim>\<open>main\<close> (lines 177--212). The state of the loop is the model, the records written to
  the log file and the random source. \<^verbatim>\<open>np.argsort\<close> is a stable sort of the indices by
  score (what numpy's default sort does on the short arrays of a tournament; the order
  of equal scores is not fixed by its documentation, and no statement below depends on
  it). \<open>generation_step\<close> is one pass through the loop body for the outcome of that
  generation's tournament; when an exception leaves it, \<open>run_generations\<close> stops and
  returns the state as the failed generation found it, together with the error.
\<close>

record GenerationRecord =
  generation :: nat
  best_parameters :: "(string \<times> real) list"
  score :: real
  default_score :: real

record tuning_state =
  pbil :: PBIL
  results_file :: "GenerationRecord list"
  source :: rng

definition argsort :: "real list \<Rightarrow> nat list" where
  "argsort xs = sort_key (\<lambda>i. xs ! i) [0..<length xs]"

fun decode_all :: "PBIL \<Rightarrow> bool list list \<Rightarrow> error + (string \<times> real) list list" where
  "decode_all m [] = Inr []"
| "decode_all m (ind # inds) =
     (case decode_individual m ind of
        Inl e \<Rightarrow> Inl e
      | Inr c \<Rightarrow> (case decode_all m inds of Inl e \<Rightarrow> Inl e | Inr cs \<Rightarrow> Inr (c # cs)))"

definition generation_step ::
  "(string \<Rightarrow> real option) \<Rightarrow> EngineEvaluator \<Rightarrow> nat \<Rightarrow> process_result \<Rightarrow> tuning_state
     \<Rightarrow> error + tuning_state" where
  "generation_step pyfloat evaluator gen res s =
     (case generate_population (pbil s) 3 (source s) of (population, g1) \<Rightarrow>
        (case decode_all (pbil s) population of
           Inl e \<Rightarrow> Inl e
         | Inr decoded \<Rightarrow>
             (let configurations = default_params evaluator # decoded;
                  fitness_scores = run_tournament pyfloat configurations res;
                  sorted_indices = rev (argsort fitness_scores)
              in case sorted_indices of
                   [] \<Rightarrow> Inl IndexError
                 | best_index # _ \<Rightarrow>
                     if best_index < length configurations then
                       Inr (s\<lparr>results_file := results_file s @
                                 [\<lparr>generation = gen,
                                   best_parameters = configurations ! best_index,
                                   score = fitness_scores ! best_index,
                                   default_score = fitness_scores ! 0\<rparr>],
                              source := g1\<rparr>)
                     else Inl IndexError)))"

fun run_generations ::
  "(string \<Rightarrow> real option) \<Rightarrow> EngineEvaluator \<Rightarrow> (nat \<Rightarrow> process_result) \<Rightarrow> nat list
     \<Rightarrow> tuning_state \<Rightarrow> tuning_state \<times> error option" where
  "run_generations pyfloat evaluator outcomes [] s = (s, None)"
| "run_generations pyfloat evaluator outcomes (gen # gens) s =
     (case generation_step pyfloat evaluator gen (outcomes gen) s of
        Inl e \<Rightarrow> (s, Some e)
      | Inr s' \<Rightarrow> run_generations pyfloat evaluator outcomes gens s')"

definition main ::
  "(string \<Rightarrow> real option) \<Rightarrow> Parameter list \<Rightarrow> (nat \<Rightarrow> process_result) \<Rightarrow> rng
     \<Rightarrow> tuning_state \<times> error option" where
  "main pyfloat extracted outcomes g =
     (let evaluator = EngineEvaluator_init extracted;
          m = PBIL_init (ev_parameters evaluator) (1 / 10) (75 / 1000) (2 / 100) (5 / 100)
      in run_generations pyfloat evaluator outcomes [0..<10]
           \<lparr>pbil = m, results_file = [], source = g\<rparr>)"

subsection \<open>Auxiliary notions for the statements\<close>

text \<open>
  Inputs for the instances below: the random source whose draws all equal \<open>c\<close>, a
  \<^verbatim>\<open>float\<close> that accepts no text, and a run in which every tournament exits with a
  non-zero status.
\<close>

definition constant_source :: "real \<Rightarrow> rng" where
  "constant_source c = (\<lambda>k. c)"

definition no_float :: "string \<Rightarrow> real option" where
  "no_float = (\<lambda>s. None)"

definition failing_tournaments :: "nat \<Rightarrow> process_result" where
  "failing_tournaments = (\<lambda>gen. CalledProcessError)"

text \<open>
  The number a digit string denotes in base 2 (what \<^verbatim>\<open>int(s, 2)\<close> computes on a string of
  binary digits), and the number a list of bits denotes, most significant bit first.
\<close>

definition bin_value :: "string \<Rightarrow> nat" where
  "bin_value s = foldl (\<lambda>a c. 2 * a + (if c = CHR ''1'' then 1 else 0)) 0 s"

definition bits_value :: "bool list \<Rightarrow> nat" where
  "bits_value bits = foldl (\<lambda>a b. 2 * a + of_bool b) 0 bits"

text \<open>
  The two update rules of PBIL as formulas: the learning rule for one probability, from
  the best and the worst individual's bit, and the mutation rule for one probability,
  from the state of the random source at that position.
\<close>

definition learned :: "real \<Rightarrow> real \<Rightarrow> real \<Rightarrow> bool \<Rightarrow> bool \<Rightarrow> real" where
  "learned lr nlr p b w =
     (if b = w then p * (1 - lr) + of_bool b * lr
      else p * (1 - (lr + nlr)) + of_bool b * (lr + nlr))"

definition mutated :: "real \<Rightarrow> real \<Rightarrow> real \<Rightarrow> rng \<Rightarrow> real" where
  "mutated mp ms p g =
     (case random g of (u, g1) \<Rightarrow>
        if u < mp then p * (1 - ms) + fst (choice01 g1) * ms else p)"

text \<open>
  The state of the random source when the mutation pass of \<^verbatim>\<open>update_probabilities\<close>
  reaches position \<open>i\<close>: every earlier position has taken one draw for its test
  against \<open>mut_prob\<close>, and one more for its target bit where the test succeeded.
\<close>

fun source_at :: "real \<Rightarrow> rng \<Rightarrow> nat \<Rightarrow> rng" where
  "source_at mp g 0 = g"
| "source_at mp g (Suc i) =
     (case random g of (u, g1) \<Rightarrow>
        source_at mp (if u < mp then snd (choice01 g1) else g1) i)"

section \<open>Properties of the codec\<close>

subsection \<open>Binary digits\<close>

lemma replicate_numeral: "replicate (numeral k) x = x # replicate (pred_numeral k) x"
  by (simp add: numeral_eq_Suc)

lemma bin_value_snoc: "bin_value (s @ [c]) = 2 * bin_value s + (if c = CHR ''1'' then 1 else 0)"
  by (simp add: bin_value_def)





lemma bits_value_snoc: "bits_value (bs @ [b]) = 2 * bits_value bs + of_bool b"
  by (simp add: bits_value_def)


lemma bin_value_map: "bin_value (map (\<lambda>bit. if bit then CHR ''1'' else CHR ''0'') bs) = bits_value bs"
  by (induction bs rule: rev_induct) (auto simp: bits_value_snoc bin_value_snoc bits_value_def bin_value_def)

lemma int_base2_bits:
  "int_base2 (map (\<lambda>bit. if bit then CHR ''1'' else CHR ''0'') bs) =
     (if bs = [] then Inl ValueError else Inr (bits_value bs))"
  using bin_value_map [of bs] by (auto simp: int_base2_def bin_value_def list_all_iff)






subsection \<open>Rounding, decoding and encoding\<close>





lemma decode_nonempty:
  "bits \<noteq> [] \<Longrightarrow>
   decode p bits =
     Inr (let v = min_value p + real (bits_value bits) / 65535 * (max_value p - min_value p)
          in if is_integer p then of_int (py_round v) else v)"
  by (simp add: decode_def int_base2_bits Let_def)






subsection \<open>Claims about the codec\<close>

text \<open>
  Claim C9. For the integer Parameter with bounds 0 and 100, \<open>encode 50\<close> is the sixteen
  bits of 32767, most significant first (one False, then fifteen True), and \<open>decode\<close> of
  that code is exactly 50.
\<close>

theorem encode_decode_example:
  "encode \<lparr>name = nm, min_value = 0, max_value = 100, default_value = d, is_integer = True\<rparr> 50
     = Inr [False, True, True, True, True, True, True, True,
            True, True, True, True, True, True, True, True]
   \<and> bits_value [False, True, True, True, True, True, True, True,
                  True, True, True, True, True, True, True, True] = 32767
   \<and> decode \<lparr>name = nm, min_value = 0, max_value = 100, default_value = d, is_integer = True\<rparr>
         [False, True, True, True, True, True, True, True,
          True, True, True, True, True, True, True, True] = Inr 50"
  by (simp add: encode_def decode_def py_int_def format_016b_def zfill_def bin_digits.simps
      int_base2_def py_round_def bits_value_def Let_def)



text \<open>
  The condition on the bounds is needed for the rounded value: for an integer Parameter
  with the bounds 0.6 and 0.9 the all-false code decodes to 1.
\<close>

lemma rounded_value_fractional_bounds:
  "decode \<lparr>name = nm, min_value = 6 / 10, max_value = 9 / 10, default_value = d,
            is_integer = True\<rparr> (replicate 16 False) = Inr 1"
  by (simp add: decode_def int_base2_def py_round_def Let_def replicate_numeral)




subsection \<open>Values outside the bounds\<close>












section \<open>Properties of the probability model\<close>

subsection \<open>Sampling\<close>

lemma random_draw: "random g = (g 0, \<lambda>n. g (Suc n))"
  by (simp add: random_def)

lemma sample_bits_ones:
  assumes "\<forall>k. g k < 1" and "sample_bits (replicate n 1) g = (bs, g')"
  shows "bs = replicate n True \<and> (\<forall>k. g' k < 1)"
  using assms
proof (induction n arbitrary: g bs g')
  case 0
  then show ?case by simp
next
  case (Suc n)
  obtain bs1 g1 where r: "sample_bits (replicate n 1) (\<lambda>k. g (Suc k)) = (bs1, g1)"
    by (cases "sample_bits (replicate n 1) (\<lambda>k. g (Suc k))")
  from Suc.prems(1) have "\<forall>k. g (Suc k) < 1" by simp
  from Suc.IH [OF this r] have "bs1 = replicate n True" "\<forall>k. g1 k < 1" by simp_all
  with Suc.prems r show ?case by (simp add: random_draw)
qed

lemma sample_bits_zeros:
  assumes "\<forall>k. 0 \<le> g k" and "sample_bits (replicate n 0) g = (bs, g')"
  shows "bs = replicate n False \<and> (\<forall>k. 0 \<le> g' k)"
  using assms
proof (induction n arbitrary: g bs g')
  case 0
  then show ?case by simp
next
  case (Suc n)
  obtain bs1 g1 where r: "sample_bits (replicate n 0) (\<lambda>k. g (Suc k)) = (bs1, g1)"
    by (cases "sample_bits (replicate n 0) (\<lambda>k. g (Suc k))")
  from Suc.prems(1) have "\<forall>k. 0 \<le> g (Suc k)" by simp
  from Suc.IH [OF this r] have "bs1 = replicate n False" "\<forall>k. 0 \<le> g1 k" by simp_all
  moreover from Suc.prems(1) have "\<not> g 0 < 0" by (simp add: not_less)
  ultimately show ?case using Suc.prems r by (simp add: random_draw)
qed

lemma sample_population_ones:
  assumes "\<forall>k. g k < 1"
  shows "fst (sample_population (replicate n 1) s g) = replicate s (replicate n True)"
  using assms
proof (induction s arbitrary: g)
  case 0
  then show ?case by simp
next
  case (Suc s)
  obtain bs g1 where r: "sample_bits (replicate n 1) g = (bs, g1)"
    by (cases "sample_bits (replicate n 1) g")
  from sample_bits_ones [OF Suc.prems r] have b: "bs = replicate n True" "\<forall>k. g1 k < 1"
    by simp_all
  from Suc.IH [OF b(2)] b(1) r show ?case by (auto split: prod.splits)
qed

lemma sample_population_zeros:
  assumes "\<forall>k. 0 \<le> g k"
  shows "fst (sample_population (replicate n 0) s g) = replicate s (replicate n False)"
  using assms
proof (induction s arbitrary: g)
  case 0
  then show ?case by simp
next
  case (Suc s)
  obtain bs g1 where r: "sample_bits (replicate n 0) g = (bs, g1)"
    by (cases "sample_bits (replicate n 0) g")
  from sample_bits_zeros [OF Suc.prems r] have b: "bs = replicate n False" "\<forall>k. 0 \<le> g1 k"
    by simp_all
  from Suc.IH [OF b(2)] b(1) r show ?case by (auto split: prod.splits)
qed

lemma constant_list: "\<forall>x\<in>set xs. x = c \<Longrightarrow> xs = replicate (length xs) c"
  by (induction xs) auto

text \<open>
  Claim C8. When every entry of the probability vector is exactly 1, every individual
  of the sampled population is the all-true bit vector, and when every entry is exactly
  0 it is the all-false one, for every population size and every state of the random
  source (whose draws lie in \<open>[0, 1)\<close>).
\<close>

theorem sample_extremes:
  assumes "\<forall>k. 0 \<le> g k \<and> g k < 1"
  shows "((\<forall>p\<in>set (prob_vector m). p = 1) \<longrightarrow>
            fst (generate_population m s g)
              = replicate s (replicate (length (prob_vector m)) True))
       \<and> ((\<forall>p\<in>set (prob_vector m). p = 0) \<longrightarrow>
            fst (generate_population m s g)
              = replicate s (replicate (length (prob_vector m)) False))"
proof (intro conjI impI)
  assume "\<forall>p\<in>set (prob_vector m). p = 1"
  then have "prob_vector m = replicate (length (prob_vector m)) 1" by (rule constant_list)
  moreover from assms have "\<forall>k. g k < 1" by simp
  ultimately show "fst (generate_population m s g)
      = replicate s (replicate (length (prob_vector m)) True)"
    using sample_population_ones [of g "length (prob_vector m)" s]
    by (simp add: generate_population_def)
next
  assume "\<forall>p\<in>set (prob_vector m). p = 0"
  then have "prob_vector m = replicate (length (prob_vector m)) 0" by (rule constant_list)
  moreover from assms have "\<forall>k. 0 \<le> g k" by simp
  ultimately show "fst (generate_population m s g)
      = replicate s (replicate (length (prob_vector m)) False)"
    using sample_population_zeros [of g "length (prob_vector m)" s]
    by (simp add: generate_population_def)
qed

theorem sample_extremes_witness:
  "fst (generate_population
         \<lparr>parameters = [\<lparr>name = ''Depth'', min_value = 1, max_value = 10,
                          default_value = 5, is_integer = True\<rparr>],
          total_bits = 16, prob_vector = replicate 16 1,
          learn_rate = 1 / 10, neg_learn_rate = 75 / 1000, mut_prob = 2 / 100,
          mut_shift = 5 / 100\<rparr> 3 (constant_source (1 / 3)))
     = replicate 3 (replicate 16 True)
   \<and> fst (generate_population
         \<lparr>parameters = [\<lparr>name = ''Depth'', min_value = 1, max_value = 10,
                          default_value = 5, is_integer = True\<rparr>],
          total_bits = 16, prob_vector = replicate 16 0,
          learn_rate = 1 / 10, neg_learn_rate = 75 / 1000, mut_prob = 2 / 100,
          mut_shift = 5 / 100\<rparr> 3 (constant_source (1 / 3)))
     = replicate 3 (replicate 16 False)"
  using sample_extremes
      [of "constant_source (1 / 3)"
          "\<lparr>parameters = [\<lparr>name = ''Depth'', min_value = 1, max_value = 10,
                          default_value = 5, is_integer = True\<rparr>],
          total_bits = 16, prob_vector = replicate 16 1,
          learn_rate = 1 / 10, neg_learn_rate = 75 / 1000, mut_prob = 2 / 100,
          mut_shift = 5 / 100\<rparr>" 3]
    sample_extremes
      [of "constant_source (1 / 3)"
          "\<lparr>parameters = [\<lparr>name = ''Depth'', min_value = 1, max_value = 10,
                          default_value = 5, is_integer = True\<rparr>],
          total_bits = 16, prob_vector = replicate 16 0,
          learn_rate = 1 / 10, neg_learn_rate = 75 / 1000, mut_prob = 2 / 100,
          mut_shift = 5 / 100\<rparr>" 3]
  by (simp add: constant_source_def)

subsection \<open>The update of the probability vector\<close>

lemma convex_step:
  fixes p r b :: real
  assumes "0 \<le> p" "p \<le> 1" "0 \<le> r" "r \<le> 1" "0 \<le> b" "b \<le> 1"
  shows "0 \<le> p * (1 - r) + b * r" and "p * (1 - r) + b * r \<le> 1"
proof -
  from assms have "0 \<le> p * (1 - r)" "0 \<le> b * r" by simp_all
  then show "0 \<le> p * (1 - r) + b * r" by simp
  from assms have "p * (1 - r) \<le> 1 * (1 - r)" by (intro mult_right_mono) simp_all
  moreover from assms have "b * r \<le> 1 * r" by (intro mult_right_mono) simp_all
  ultimately show "p * (1 - r) + b * r \<le> 1" by simp
qed

lemma learned_unit:
  assumes "0 \<le> p" "p \<le> 1" "0 \<le> lr" "0 \<le> nlr" "lr + nlr \<le> 1"
  shows "0 \<le> learned lr nlr p b w \<and> learned lr nlr p b w \<le> 1"
proof (cases "b = w")
  case True
  from assms have "lr \<le> 1" by simp
  with convex_step [of p lr "of_bool b"] assms True show ?thesis by (simp add: learned_def)
next
  case False
  from assms have "0 \<le> lr + nlr" by simp
  with convex_step [of p "lr + nlr" "of_bool b"] assms False show ?thesis
    by (simp add: learned_def)
qed

lemma choice01_bit: "fst (choice01 g) = 0 \<or> fst (choice01 g) = 1"
  by (simp add: choice01_def)

lemma mutated_unit:
  assumes "0 \<le> p" "p \<le> 1" "0 \<le> ms" "ms \<le> 1"
  shows "0 \<le> mutated mp ms p g \<and> mutated mp ms p g \<le> 1"
proof -
  have "0 \<le> fst (choice01 g1)" "fst (choice01 g1) \<le> 1" for g1
    using choice01_bit [of g1] by auto
  with convex_step [of p ms] assms show ?thesis
    by (auto simp: mutated_def split: prod.splits)
qed

lemma learn_steps_general:
  assumes "\<forall>i\<in>set js. i < length best \<and> i < length worst \<and> i < length pv" and "distinct js"
  shows "\<exists>pv'. learn_steps lr nlr best worst js pv = Inr pv' \<and> length pv' = length pv \<and>
           (\<forall>i. pv' ! i =
              (if i \<in> set js then learned lr nlr (pv ! i) (best ! i) (worst ! i) else pv ! i))"
  using assms
proof (induction js arbitrary: pv)
  case Nil
  then show ?case by simp
next
  case (Cons j js)
  define pv1 where "pv1 = pv[j := learned lr nlr (pv ! j) (best ! j) (worst ! j)]"
  from Cons.prems have j: "j < length best" "j < length worst" "j < length pv" "j \<notin> set js"
    by simp_all
  then have step: "learn_steps lr nlr best worst (j # js) pv = learn_steps lr nlr best worst js pv1"
    by (simp add: pv1_def learned_def Let_def)
  from Cons.prems have "\<forall>i\<in>set js. i < length best \<and> i < length worst \<and> i < length pv1"
    "distinct js" by (simp_all add: pv1_def)
  from Cons.IH [OF this] obtain pv' where r:
    "learn_steps lr nlr best worst js pv1 = Inr pv'" "length pv' = length pv1"
    "\<forall>i. pv' ! i = (if i \<in> set js then learned lr nlr (pv1 ! i) (best ! i) (worst ! i) else pv1 ! i)"
    by blast
  have "pv' ! i = (if i \<in> set (j # js) then learned lr nlr (pv ! i) (best ! i) (worst ! i) else pv ! i)" for i
  proof (cases "i = j")
    case True
    with r(3) j show ?thesis by (simp add: pv1_def)
  next
    case False
    with r(3) show ?thesis by (simp add: pv1_def)
  qed
  with step r(1,2) show ?case by (simp add: pv1_def)
qed

lemma source_at_Suc:
  "source_at mp g (Suc k) = source_at mp (source_at mp g 1) k"
  by (simp split: prod.splits)

lemma mutate_steps_upt:
  assumes "b \<le> length pv"
  shows "\<exists>pv'. mutate_steps mp ms [a..<b] pv g = Inr (pv', source_at mp g (b - a)) \<and>
           length pv' = length pv \<and>
           (\<forall>i. pv' ! i =
              (if a \<le> i \<and> i < b then mutated mp ms (pv ! i) (source_at mp g (i - a)) else pv ! i))"
  using assms
proof (induction "b - a" arbitrary: a pv g)
  case 0
  then show ?case by simp
next
  case (Suc d)
  then have ab: "a < b" and d: "d = b - Suc a" by simp_all
  then have upt: "[a..<b] = a # [Suc a..<b]" by (simp add: upt_conv_Cons)
  define pv1 where "pv1 = pv[a := mutated mp ms (pv ! a) g]"
  define g1 where "g1 = source_at mp g 1"
  from ab Suc.prems have alen: "a < length pv" by simp
  have step: "mutate_steps mp ms (a # [Suc a..<b]) pv g = mutate_steps mp ms [Suc a..<b] pv1 g1"
    using alen
    by (auto simp: pv1_def g1_def mutated_def random_def choice01_def split: prod.splits)
  from Suc.prems have "b \<le> length pv1" by (simp add: pv1_def)
  from Suc.hyps(1) [OF d this, of g1] obtain pv' where r:
    "mutate_steps mp ms [Suc a..<b] pv1 g1 = Inr (pv', source_at mp g1 (b - Suc a))"
    "length pv' = length pv1"
    "\<forall>i. pv' ! i = (if Suc a \<le> i \<and> i < b
        then mutated mp ms (pv1 ! i) (source_at mp g1 (i - Suc a)) else pv1 ! i)"
    by blast
  have g_end: "source_at mp g1 (b - Suc a) = source_at mp g (b - a)"
    using ab source_at_Suc [of mp g "b - Suc a"] by (simp add: g1_def Suc_diff_Suc)
  have "pv' ! i = (if a \<le> i \<and> i < b then mutated mp ms (pv ! i) (source_at mp g (i - a)) else pv ! i)" for i
  proof -
    consider "i = a" | "Suc a \<le> i" | "i < a" by linarith
    then show ?thesis
    proof cases
      case 1
      with r(3) ab alen show ?thesis by (simp add: pv1_def)
    next
      case 2
      then have "source_at mp g1 (i - Suc a) = source_at mp g (i - a)"
        using source_at_Suc [of mp g "i - Suc a"] by (simp add: g1_def Suc_diff_Suc)
      with 2 r(3) show ?thesis by (simp add: pv1_def)
    next
      case 3
      with r(3) show ?thesis by (simp add: pv1_def)
    qed
  qed
  with step r(1,2) g_end upt show ?case by (simp add: pv1_def)
qed

lemma update_probabilities_result:
  assumes "length (prob_vector m) = total_bits m"
    and "length best = total_bits m" and "length worst = total_bits m"
  shows "\<exists>pv'. update_probabilities m best worst g
             = Inr (m\<lparr>prob_vector := pv'\<rparr>, source_at (mut_prob m) g (total_bits m))
           \<and> length pv' = total_bits m
           \<and> (\<forall>i<total_bits m. pv' ! i =
                mutated (mut_prob m) (mut_shift m)
                  (learned (learn_rate m) (neg_learn_rate m) (prob_vector m ! i) (best ! i) (worst ! i))
                  (source_at (mut_prob m) g i))"
proof -
  let ?n = "total_bits m"
  have "\<forall>i\<in>set [0..<?n]. i < length best \<and> i < length worst \<and> i < length (prob_vector m)"
    using assms by simp
  from learn_steps_general [OF this distinct_upt, of "learn_rate m" "neg_learn_rate m"]
  obtain pv1 where l:
    "learn_steps (learn_rate m) (neg_learn_rate m) best worst [0..<?n] (prob_vector m) = Inr pv1"
    "length pv1 = length (prob_vector m)"
    "\<forall>i. pv1 ! i = (if i \<in> set [0..<?n]
        then learned (learn_rate m) (neg_learn_rate m) (prob_vector m ! i) (best ! i) (worst ! i)
        else prob_vector m ! i)"
    by blast
  from l(2) assms(1) have "?n \<le> length pv1" by simp
  from mutate_steps_upt [OF this, of "mut_prob m" "mut_shift m" 0 g]
  obtain pv2 where u:
    "mutate_steps (mut_prob m) (mut_shift m) [0..<?n] pv1 g
       = Inr (pv2, source_at (mut_prob m) g (?n - 0))"
    "length pv2 = length pv1"
    "\<forall>i. pv2 ! i = (if 0 \<le> i \<and> i < ?n
        then mutated (mut_prob m) (mut_shift m) (pv1 ! i) (source_at (mut_prob m) g (i - 0))
        else pv1 ! i)"
    by blast
  have "update_probabilities m best worst g
      = Inr (m\<lparr>prob_vector := pv2\<rparr>, source_at (mut_prob m) g ?n)"
    using l(1) u(1) by (simp add: update_probabilities_def)
  moreover have "length pv2 = ?n" using u(2) l(2) assms(1) by simp
  moreover have "\<forall>i<?n. pv2 ! i =
      mutated (mut_prob m) (mut_shift m)
        (learned (learn_rate m) (neg_learn_rate m) (prob_vector m ! i) (best ! i) (worst ! i))
        (source_at (mut_prob m) g i)"
    using u(3) l(3) by simp
  ultimately show ?thesis by blast
qed

lemma random_constant: "random (constant_source c) = (c, constant_source c)"
  by (simp add: random_def constant_source_def)

lemma choice01_constant:
  "choice01 (constant_source c) = ((if c < 1 / 2 then 0 else 1), constant_source c)"
  by (simp add: choice01_def constant_source_def)

lemma source_at_const: "source_at mp (constant_source c) i = constant_source c"
  by (induction i) (simp_all add: random_constant choice01_constant)

lemma PBIL_init_invariant:
  "length (prob_vector (PBIL_init ps lr nlr mp ms)) = total_bits (PBIL_init ps lr nlr mp ms)"
  "total_bits (PBIL_init ps lr nlr mp ms) = 16 * length (parameters (PBIL_init ps lr nlr mp ms))"
  "\<forall>x\<in>set (prob_vector (PBIL_init ps lr nlr mp ms)). 0 \<le> x \<and> x \<le> 1"
  by (simp_all add: PBIL_init_def)

text \<open>
  Claim C5. At every bit position \<open>i\<close>, \<open>update_probabilities\<close> first replaces \<open>p[i]\<close>
  by \<open>p[i] (1 - learn_rate) + best[i] learn_rate\<close> when \<open>best[i] = worst[i]\<close>, and by the
  same formula at the rate \<open>learn_rate + neg_learn_rate\<close> when they differ. Afterwards
  the position takes a draw \<open>u\<close> of the random source of its own and, when
  \<open>u < mut_prob\<close>, a target bit in \<open>{0, 1}\<close> from the next draw, and the probability
  becomes \<open>q (1 - mut_shift) + target mut_shift\<close>; otherwise it keeps the learned
  value \<open>q\<close>.
\<close>

theorem update_rule:
  assumes "length (prob_vector m) = total_bits m"
    and "length best = total_bits m" and "length worst = total_bits m"
    and "i < total_bits m"
  shows "\<exists>m' g'. update_probabilities m best worst g = Inr (m', g') \<and>
           (let p = prob_vector m ! i;
                learn_rate2 = learn_rate m + neg_learn_rate m;
                q = (if best ! i = worst ! i
                     then p * (1 - learn_rate m) + of_bool (best ! i) * learn_rate m
                     else p * (1 - learn_rate2) + of_bool (best ! i) * learn_rate2);
                (u, g1) = random (source_at (mut_prob m) g i);
                target = fst (choice01 g1)
            in (target = 0 \<or> target = 1) \<and>
               prob_vector m' ! i =
                 (if u < mut_prob m then q * (1 - mut_shift m) + target * mut_shift m else q))"
proof -
  from update_probabilities_result [OF assms(1-3), of g] obtain pv' where r:
    "update_probabilities m best worst g
       = Inr (m\<lparr>prob_vector := pv'\<rparr>, source_at (mut_prob m) g (total_bits m))"
    "\<forall>i<total_bits m. pv' ! i =
        mutated (mut_prob m) (mut_shift m)
          (learned (learn_rate m) (neg_learn_rate m) (prob_vector m ! i) (best ! i) (worst ! i))
          (source_at (mut_prob m) g i)"
    by blast
  from r(2) assms(4) have
    "prob_vector (m\<lparr>prob_vector := pv'\<rparr>) ! i =
        mutated (mut_prob m) (mut_shift m)
          (learned (learn_rate m) (neg_learn_rate m) (prob_vector m ! i) (best ! i) (worst ! i))
          (source_at (mut_prob m) g i)"
    by simp
  with r(1) choice01_bit show ?thesis
    by (simp add: mutated_def learned_def Let_def split: prod.splits)
qed

theorem update_rule_witness:
  "\<exists>m' g'. update_probabilities (PBIL_init
        [\<lparr>name = ''Depth'', min_value = 1, max_value = 10, default_value = 5, is_integer = True\<rparr>]
        (1 / 10) (75 / 1000) (2 / 100) (5 / 100))
      (replicate 16 True) (replicate 8 True @ replicate 8 False) (constant_source (1 / 100)) = Inr (m', g')
    \<and> prob_vector m' ! 9
        = (1 / 2 * (1 - (1 / 10 + 75 / 1000)) + 1 * (1 / 10 + 75 / 1000)) * (1 - 5 / 100)
            + 0 * (5 / 100)"
  using update_rule [of "PBIL_init
        [\<lparr>name = ''Depth'', min_value = 1, max_value = 10, default_value = 5, is_integer = True\<rparr>]
        (1 / 10) (75 / 1000) (2 / 100) (5 / 100)"
      "replicate 16 True" "replicate 8 True @ replicate 8 False" 9 "constant_source (1 / 100)"]
  by (simp add: PBIL_init_def source_at_const random_constant choice01_constant
      nth_append mult.commute)

text \<open>
  Claim C3. For a model whose probability vector has the length fixed at construction,
  \<open>16 |parameters|\<close>, with entries in \<open>[0, 1]\<close>, rates \<open>learn_rate\<close>, \<open>neg_learn_rate\<close>,
  \<open>mut_prob\<close>, \<open>mut_shift\<close> in \<open>[0, 1]\<close> and \<open>learn_rate + neg_learn_rate \<le> 1\<close>, and for
  bit vectors \<open>best\<close> and \<open>worst\<close> of that length, \<open>update_probabilities\<close> (mutation
  included) returns a model whose probability vector has the same length and entries
  in \<open>[0, 1]\<close>.
\<close>

theorem update_keeps_probabilities:
  assumes "length (prob_vector m) = total_bits m"
    and "total_bits m = 16 * length (parameters m)"
    and "\<forall>x\<in>set (prob_vector m). 0 \<le> x \<and> x \<le> 1"
    and "0 \<le> learn_rate m" "learn_rate m \<le> 1"
    and "0 \<le> neg_learn_rate m" "neg_learn_rate m \<le> 1"
    and "learn_rate m + neg_learn_rate m \<le> 1"
    and "0 \<le> mut_prob m" "mut_prob m \<le> 1"
    and "0 \<le> mut_shift m" "mut_shift m \<le> 1"
    and "length best = 16 * length (parameters m)"
    and "length worst = 16 * length (parameters m)"
  shows "\<exists>m' g'. update_probabilities m best worst g = Inr (m', g') \<and>
           (\<forall>x\<in>set (prob_vector m'). 0 \<le> x \<and> x \<le> 1) \<and>
           length (prob_vector m') = length (prob_vector m) \<and>
           length (prob_vector m') = 16 * length (parameters m')"
proof -
  have lens: "length best = total_bits m" "length worst = total_bits m"
    using assms(2,13,14) by simp_all
  from update_probabilities_result [OF assms(1) lens, of g] obtain pv' where r:
    "update_probabilities m best worst g
       = Inr (m\<lparr>prob_vector := pv'\<rparr>, source_at (mut_prob m) g (total_bits m))"
    "length pv' = total_bits m"
    "\<forall>i<total_bits m. pv' ! i =
        mutated (mut_prob m) (mut_shift m)
          (learned (learn_rate m) (neg_learn_rate m) (prob_vector m ! i) (best ! i) (worst ! i))
          (source_at (mut_prob m) g i)"
    by blast
  have "0 \<le> pv' ! i \<and> pv' ! i \<le> 1" if "i < length pv'" for i
  proof -
    from that r(2) have i: "i < total_bits m" by simp
    with assms(1,3) have p: "0 \<le> prob_vector m ! i" "prob_vector m ! i \<le> 1" by simp_all
    from learned_unit [OF p assms(4,6,8)]
    have q: "0 \<le> learned (learn_rate m) (neg_learn_rate m) (prob_vector m ! i) (best ! i) (worst ! i)"
      "learned (learn_rate m) (neg_learn_rate m) (prob_vector m ! i) (best ! i) (worst ! i) \<le> 1"
      by simp_all
    from mutated_unit [OF q assms(11,12)] r(3) i show ?thesis by simp
  qed
  then have "\<forall>x\<in>set pv'. 0 \<le> x \<and> x \<le> 1" by (simp add: all_set_conv_all_nth)
  with r(1,2) assms(1,2) show ?thesis by simp
qed

theorem update_keeps_probabilities_witness:
  "\<exists>m' g'. update_probabilities (PBIL_init
        [\<lparr>name = ''Depth'', min_value = 1, max_value = 10, default_value = 5, is_integer = True\<rparr>]
        (1 / 10) (75 / 1000) (2 / 100) (5 / 100))
      (replicate 16 True) (replicate 8 True @ replicate 8 False) (constant_source (1 / 100)) = Inr (m', g')
    \<and> (\<forall>x\<in>set (prob_vector m'). 0 \<le> x \<and> x \<le> 1)
    \<and> length (prob_vector m') = 16"
  using update_keeps_probabilities [of "PBIL_init
        [\<lparr>name = ''Depth'', min_value = 1, max_value = 10, default_value = 5, is_integer = True\<rparr>]
        (1 / 10) (75 / 1000) (2 / 100) (5 / 100)"
      "replicate 16 True" "replicate 8 True @ replicate 8 False" "constant_source (1 / 100)"]
  by (simp add: PBIL_init_def) blast

section \<open>Properties of the driver\<close>

subsection \<open>Populations, decoding and ranking\<close>

lemma length_sample_bits: "sample_bits pv g = (bs, g') \<Longrightarrow> length bs = length pv"
  by (induction pv arbitrary: g bs g') (auto split: prod.splits)

lemma sample_population_shape:
  "length (fst (sample_population pv k g)) = k \<and>
   (\<forall>ind\<in>set (fst (sample_population pv k g)). length ind = length pv)"
proof (induction k arbitrary: g)
  case 0
  then show ?case by simp
next
  case (Suc k)
  obtain ind g1 where r: "sample_bits pv g = (ind, g1)" by (cases "sample_bits pv g")
  with length_sample_bits [of pv g ind g1] have "length ind = length pv" by simp
  with Suc [of g1] r show ?case by (auto split: prod.splits)
qed

lemma decode_blocks_succeeds:
  "(i + length ps) * 16 \<le> length individual \<Longrightarrow> \<exists>d'. decode_blocks ps i individual d = Inr d'"
proof (induction ps arbitrary: i d)
  case Nil
  then show ?case by simp
next
  case (Cons p ps)
  then have "i * 16 < length individual" by simp
  then have "take 16 (drop (i * 16) individual) \<noteq> []" by simp
  then obtain v where v: "decode p (take 16 (drop (i * 16) individual)) = Inr v"
    by (simp add: decode_nonempty del: take_eq_Nil)
  from Cons.prems have "(Suc i + length ps) * 16 \<le> length individual" by simp
  from Cons.IH [OF this] v show ?case by simp
qed

lemma decode_all_succeeds:
  "\<forall>ind\<in>set population. length (parameters m) * 16 \<le> length ind \<Longrightarrow>
   \<exists>cs. decode_all m population = Inr cs \<and> length cs = length population"
proof (induction population)
  case Nil
  then show ?case by simp
next
  case (Cons ind inds)
  then have "(0 + length (parameters m)) * 16 \<le> length ind" by simp
  from decode_blocks_succeeds [OF this] obtain c where "decode_individual m ind = Inr c"
    by (auto simp: decode_individual_def)
  moreover from Cons obtain cs where "decode_all m inds = Inr cs" "length cs = length inds"
    by auto
  ultimately show ?case by simp
qed


lemma generation_step_keeps_model:
  "generation_step pyfloat evaluator gen res s = Inr s' \<Longrightarrow> pbil s' = pbil s"
  by (auto simp: generation_step_def Let_def split: prod.splits sum.splits list.splits if_splits)

lemma run_generations_keeps_model:
  "pbil (fst (run_generations pyfloat evaluator outcomes gens s)) = pbil s"
proof (induction gens arbitrary: s)
  case Nil
  then show ?case by simp
next
  case (Cons gen gens)
  show ?case
  proof (cases "generation_step pyfloat evaluator gen (outcomes gen) s")
    case (Inl e)
    then show ?thesis by simp
  next
    case (Inr s')
    with Cons [of s'] generation_step_keeps_model [OF Inr] show ?thesis by simp
  qed
qed

lemma parse_empty_output: "parse_tournament_results pyfloat '''' = []"
  by (simp add: parse_tournament_results_def strip_def startswith_def)

lemma population_decodes:
  assumes "length (prob_vector m) = length (parameters m) * 16"
  shows "\<exists>cs. decode_all m (fst (generate_population m k g)) = Inr cs \<and> length cs = k"
proof -
  from sample_population_shape [of "prob_vector m" k g] assms
  have "length (fst (generate_population m k g)) = k"
    "\<forall>ind\<in>set (fst (generate_population m k g)). length (parameters m) * 16 \<le> length ind"
    by (simp_all add: generate_population_def)
  with decode_all_succeeds [of "fst (generate_population m k g)" m] show ?thesis by auto
qed

lemma generation_step_no_scores:
  assumes "length (prob_vector (pbil s)) = length (parameters (pbil s)) * 16"
  shows "generation_step pyfloat evaluator gen (Completed '''') s = Inl IndexError"
proof -
  obtain population g1 where p: "generate_population (pbil s) 3 (source s) = (population, g1)"
    by (cases "generate_population (pbil s) 3 (source s)")
  with population_decodes [OF assms, of 3 "source s"] obtain cs where
    "decode_all (pbil s) population = Inr cs" by auto
  with p show ?thesis
    by (simp add: generation_step_def run_tournament_def parse_empty_output argsort_def)
qed




lemma main_keeps_model:
  "pbil (fst (main pyfloat ps outcomes g)) = PBIL_init ps (1 / 10) (75 / 1000) (2 / 100) (5 / 100)"
  using run_generations_keeps_model
    [of pyfloat "EngineEvaluator_init ps" outcomes "[0..<10]"
        "\<lparr>pbil = PBIL_init ps (1 / 10) (75 / 1000) (2 / 100) (5 / 100),
           results_file = [], source = g\<rparr>"]
  by (simp add: main_def EngineEvaluator_init_def Let_def del: upt_rec_numeral upt.simps)

lemma update_changes_prior:
  assumes "ps \<noteq> []" and "length best = 16 * length ps" and "length worst = 16 * length ps"
  shows "\<exists>m' g'. update_probabilities (PBIL_init ps (1 / 10) (75 / 1000) (2 / 100) (5 / 100))
                    best worst g = Inr (m', g') \<and>
                 prob_vector m' \<noteq> prob_vector (PBIL_init ps (1 / 10) (75 / 1000) (2 / 100) (5 / 100))"
proof -
  let ?m = "PBIL_init ps (1 / 10) (75 / 1000) (2 / 100) (5 / 100)"
  have lens: "length (prob_vector ?m) = total_bits ?m" "length best = total_bits ?m"
    "length worst = total_bits ?m"
    using assms by (simp_all add: PBIL_init_def)
  from assms(1) have pos: "0 < total_bits ?m" by (simp add: PBIL_init_def)
  from update_probabilities_result [OF lens, of g] obtain pv' where r:
    "update_probabilities ?m best worst g
       = Inr (?m\<lparr>prob_vector := pv'\<rparr>, source_at (mut_prob ?m) g (total_bits ?m))"
    "\<forall>i<total_bits ?m. pv' ! i =
        mutated (mut_prob ?m) (mut_shift ?m)
          (learned (learn_rate ?m) (neg_learn_rate ?m) (prob_vector ?m ! i) (best ! i) (worst ! i))
          (source_at (mut_prob ?m) g i)"
    by blast
  from r(2) pos have "pv' ! 0 =
      mutated (2 / 100) (5 / 100) (learned (1 / 10) (75 / 1000) (1 / 2) (best ! 0) (worst ! 0)) g"
    by (simp add: PBIL_init_def)
  then have "pv' ! 0 \<noteq> 1 / 2"
    by (simp add: mutated_def learned_def random_def choice01_def split: if_splits)
  moreover from pos have "prob_vector ?m ! 0 = 1 / 2" by (simp add: PBIL_init_def)
  ultimately have "pv' \<noteq> prob_vector ?m" by auto
  with r(1) show ?thesis by simp
qed

subsection \<open>Claims about the driver\<close>



text \<open>
  Claim C1. The claim asks that every generation feed the best and the worst sampled
  individual to \<open>update_probabilities\<close>. The driver never does: whatever the tournaments
  return and whatever the random source, the model at the end of the run (and so after
  each of its generations) is the one \<open>PBIL_init\<close> built, with every probability at
  \<open>1/2\<close>; an update with any best and worst individual would have changed the
  probability vector.
\<close>

theorem driver_never_updates_model:
  "pbil (fst (main pyfloat ps outcomes g))
     = PBIL_init ps (1 / 10) (75 / 1000) (2 / 100) (5 / 100)
   \<and> (ps \<noteq> [] \<and> length best = 16 * length ps \<and> length worst = 16 * length ps \<longrightarrow>
        (\<exists>m' g'. update_probabilities (PBIL_init ps (1 / 10) (75 / 1000) (2 / 100) (5 / 100))
                    best worst g0 = Inr (m', g') \<and>
                 prob_vector m'
                   \<noteq> prob_vector (PBIL_init ps (1 / 10) (75 / 1000) (2 / 100) (5 / 100))))"
  using main_keeps_model [of pyfloat ps outcomes g] update_changes_prior [of ps best worst g0]
  by blast

theorem driver_never_updates_model_witness:
  "pbil (fst (main no_float
       [\<lparr>name = ''Depth'', min_value = 1, max_value = 10, default_value = 5, is_integer = True\<rparr>]
       failing_tournaments (constant_source 0)))
     = PBIL_init
         [\<lparr>name = ''Depth'', min_value = 1, max_value = 10, default_value = 5, is_integer = True\<rparr>]
         (1 / 10) (75 / 1000) (2 / 100) (5 / 100)
   \<and> (\<exists>m' g'. update_probabilities (PBIL_init
         [\<lparr>name = ''Depth'', min_value = 1, max_value = 10, default_value = 5, is_integer = True\<rparr>]
         (1 / 10) (75 / 1000) (2 / 100) (5 / 100))
           (replicate 16 True) (replicate 16 False) (constant_source 0) = Inr (m', g') \<and>
         prob_vector m' \<noteq> prob_vector (PBIL_init
         [\<lparr>name = ''Depth'', min_value = 1, max_value = 10, default_value = 5, is_integer = True\<rparr>]
         (1 / 10) (75 / 1000) (2 / 100) (5 / 100)))"
  using driver_never_updates_model
    [of no_float
        "[\<lparr>name = ''Depth'', min_value = 1, max_value = 10, default_value = 5, is_integer = True\<rparr>]"
        failing_tournaments "constant_source 0" "replicate 16 True" "replicate 16 False" "constant_source 0"]
  by simp

text \<open>
  Claim C4. The claim asks that a tournament returning fewer scores than candidates,
  the empty list included, be recorded with sentinel scores and the run go on. On a
  tournament whose output has no \<^verbatim>\<open>Rank Name\<close> line (the empty output, say)
  \<open>parse_tournament_results\<close> returns the empty list, and then
  \<^verbatim>\<open>sorted_indices[0]\<close> raises \<^verbatim>\<open>IndexError\<close>: the error leaves the run in its
  first generation and nothing is recorded, for every ParameterSpace and random source.
\<close>

theorem empty_scores_abort_run:
  "run_tournament pyfloat configs (Completed '''') = []
   \<and> main pyfloat ps (\<lambda>gen. Completed '''') g =
       (\<lparr>pbil = PBIL_init ps (1 / 10) (75 / 1000) (2 / 100) (5 / 100),
         results_file = [], source = g\<rparr>, Some IndexError)"
proof -
  have "generation_step pyfloat (EngineEvaluator_init ps) 0 (Completed '''')
           \<lparr>pbil = PBIL_init ps (1 / 10) (75 / 1000) (2 / 100) (5 / 100),
             results_file = [], source = g\<rparr> = Inl IndexError"
    by (rule generation_step_no_scores) (simp add: PBIL_init_def)
  then show ?thesis
    by (simp add: main_def EngineEvaluator_init_def Let_def upt_conv_Cons run_tournament_def
        parse_empty_output del: upt_rec_numeral)
qed

end
